theory Spec2Isabelle
  imports Complex_Main "HOL-Library.Multiset"
begin

section \<open>Numeric values\<close>

text \<open>
  The factor library computes on numpy \<open>float64\<close> arrays. A value is modelled as the real
  number it denotes, or one of the three special values of the format. Arithmetic on finite
  values is exact: rounding, overflow to infinity and the sign of zero are outside this model.
  The special values follow numpy: NaN is absorbing, \<open>inf - inf\<close>, \<open>0 * inf\<close>,
  \<open>inf / inf\<close> and \<open>0 / 0\<close> are NaN, a nonzero finite value divided by zero is an
  infinity, and every comparison with NaN is false.
\<close>

datatype float64 = Fin real | PosInf | NegInf | NaN

datatype error = DataUnavailable | IndexError | ValueError | ZeroDivisionError | TypeError
  | TalibError

fun isnan :: "float64 \<Rightarrow> bool" where
  "isnan NaN = True"
| "isnan _ = False"

fun isfinite :: "float64 \<Rightarrow> bool" where
  "isfinite (Fin _) = True"
| "isfinite _ = False"

fun fneg :: "float64 \<Rightarrow> float64" where
  "fneg (Fin a) = Fin (- a)"
| "fneg PosInf = NegInf"
| "fneg NegInf = PosInf"
| "fneg NaN = NaN"

fun fadd :: "float64 \<Rightarrow> float64 \<Rightarrow> float64" where
  "fadd NaN _ = NaN"
| "fadd _ NaN = NaN"
| "fadd (Fin a) (Fin b) = Fin (a + b)"
| "fadd PosInf NegInf = NaN"
| "fadd NegInf PosInf = NaN"
| "fadd PosInf _ = PosInf"
| "fadd NegInf _ = NegInf"
| "fadd (Fin a) PosInf = PosInf"
| "fadd (Fin a) NegInf = NegInf"

definition fsub :: "float64 \<Rightarrow> float64 \<Rightarrow> float64" where
  "fsub a b = fadd a (fneg b)"

text \<open>The sign of an infinity scaled by a finite nonzero factor.\<close>

definition signed_inf :: "bool \<Rightarrow> float64" where
  "signed_inf positive = (if positive then PosInf else NegInf)"

fun fmul :: "float64 \<Rightarrow> float64 \<Rightarrow> float64" where
  "fmul NaN _ = NaN"
| "fmul _ NaN = NaN"
| "fmul (Fin a) (Fin b) = Fin (a * b)"
| "fmul PosInf PosInf = PosInf"
| "fmul PosInf NegInf = NegInf"
| "fmul NegInf PosInf = NegInf"
| "fmul NegInf NegInf = PosInf"
| "fmul PosInf (Fin b) = (if b = 0 then NaN else signed_inf (0 < b))"
| "fmul NegInf (Fin b) = (if b = 0 then NaN else signed_inf (b < 0))"
| "fmul (Fin a) PosInf = (if a = 0 then NaN else signed_inf (0 < a))"
| "fmul (Fin a) NegInf = (if a = 0 then NaN else signed_inf (a < 0))"

fun fdiv :: "float64 \<Rightarrow> float64 \<Rightarrow> float64" where
  "fdiv NaN _ = NaN"
| "fdiv _ NaN = NaN"
| "fdiv (Fin a) (Fin b) =
     (if b \<noteq> 0 then Fin (a / b) else if a = 0 then NaN else signed_inf (0 < a))"
| "fdiv (Fin a) PosInf = Fin 0"
| "fdiv (Fin a) NegInf = Fin 0"
| "fdiv PosInf (Fin b) = signed_inf (0 \<le> b)"
| "fdiv NegInf (Fin b) = signed_inf (b < 0)"
| "fdiv PosInf _ = NaN"
| "fdiv NegInf _ = NaN"

text \<open>\<open>a < b\<close> and \<open>a > b\<close> on floats; false whenever an operand is NaN.\<close>

fun flt :: "float64 \<Rightarrow> float64 \<Rightarrow> bool" where
  "flt NaN _ = False"
| "flt _ NaN = False"
| "flt (Fin a) (Fin b) = (a < b)"
| "flt NegInf NegInf = False"
| "flt NegInf _ = True"
| "flt _ NegInf = False"
| "flt PosInf _ = False"
| "flt (Fin a) PosInf = True"

definition fgt :: "float64 \<Rightarrow> float64 \<Rightarrow> bool" where
  "fgt a b = flt b a"

fun fsqrt :: "float64 \<Rightarrow> float64" where
  "fsqrt (Fin a) = (if 0 \<le> a then Fin (sqrt a) else NaN)"
| "fsqrt PosInf = PosInf"
| "fsqrt NegInf = NaN"
| "fsqrt NaN = NaN"

text \<open>\<open>np.sum\<close> of a one-dimensional array, starting from 0.\<close>

definition np_sum :: "float64 list \<Rightarrow> float64" where
  "np_sum xs = foldl fadd (Fin 0) xs"

section \<open>NaN-aware statistics of one column\<close>

text \<open>
  \<open>np.nanmean\<close>: the NaN entries are dropped, the rest is summed and divided by the number
  of entries kept; with nothing kept this is \<open>0 / 0\<close>, hence NaN.
\<close>

definition np_nanmean :: "float64 list \<Rightarrow> float64" where
  "np_nanmean xs =
     (let kept = filter (\<lambda>x. \<not> isnan x) xs
      in fdiv (np_sum kept) (Fin (real (length kept))))"

text \<open>
  \<open>np.nanvar\<close> with the default \<open>ddof = 0\<close>: the squared deviations of the kept entries from
  their mean, summed and divided by the number of kept entries; NaN when there are
  \<open>ddof\<close> or fewer entries. \<open>np.nanstd\<close> is its square root.
\<close>

definition np_nanvar :: "nat \<Rightarrow> float64 list \<Rightarrow> float64" where
  "np_nanvar ddof xs =
     (let kept = filter (\<lambda>x. \<not> isnan x) xs;
          cnt = length kept;
          avg = fdiv (np_sum kept) (Fin (real cnt));
          sqr = map (\<lambda>x. fmul (fsub x avg) (fsub x avg)) kept
      in if cnt \<le> ddof then NaN
         else fdiv (np_sum sqr) (Fin (real cnt - real ddof)))"

definition np_nanstd :: "float64 list \<Rightarrow> float64" where
  "np_nanstd xs = fsqrt (np_nanvar 0 xs)"

section \<open>Windows\<close>

text \<open>
  A window is a two-dimensional array of shape \<open>(window_length, N)\<close>: a list of rows, oldest
  first, each row holding one value per instrument. \<open>w.T\<close> lists its columns.
\<close>

type_synonym window = "float64 list list"

definition ncols :: "window \<Rightarrow> nat" where
  "ncols w = (case w of [] \<Rightarrow> 0 | r # _ \<Rightarrow> length r)"

definition column :: "window \<Rightarrow> nat \<Rightarrow> float64 list" where
  "column w j = map (\<lambda>r. r ! j) w"

definition T :: "window \<Rightarrow> float64 list list" where
  "T w = map (column w) [0..<ncols w]"

definition rectangular :: "nat \<Rightarrow> window \<Rightarrow> bool" where
  "rectangular n w = (w \<noteq> [] \<and> list_all (\<lambda>r. length r = n) w)"

text \<open>
  \<open>xs[i]\<close> in Python: positions \<open>0 .. len - 1\<close> from the front, \<open>-1 .. -len\<close> from the
  back, and \<open>IndexError\<close> for every other index.
\<close>

definition getitem :: "'a list \<Rightarrow> int \<Rightarrow> error + 'a" where
  "getitem xs i =
     (if 0 \<le> i \<and> i < int (length xs) then Inr (xs ! nat i)
      else if i < 0 \<and> - int (length xs) \<le> i then Inr (xs ! nat (int (length xs) + i))
      else Inl IndexError)"

text \<open>The slice \<open>xs[-k:]\<close> for \<open>k > 0\<close>: the last \<open>k\<close> entries, all of them when there are fewer.\<close>

definition last_n :: "nat \<Rightarrow> 'a list \<Rightarrow> 'a list" where
  "last_n k xs = drop (length xs - k) xs"

section \<open>Array operations\<close>

text \<open>
  Elementwise numpy arithmetic on rows. All input windows of one \<open>compute\<close> call have the
  same number of columns (one per asset), so the two operands of an elementwise operation
  always have equal length.
\<close>

definition vsub :: "float64 list \<Rightarrow> float64 list \<Rightarrow> float64 list" where
  "vsub a b = map2 fsub a b"

definition vmul :: "float64 list \<Rightarrow> float64 list \<Rightarrow> float64 list" where
  "vmul a b = map2 fmul a b"

definition vdiv :: "float64 list \<Rightarrow> float64 list \<Rightarrow> float64 list" where
  "vdiv a b = map2 fdiv a b"

text \<open>A row combined with a scalar: \<open>a * c\<close>, \<open>a / c\<close>, \<open>a - c\<close>.\<close>

definition vmuls :: "float64 list \<Rightarrow> float64 \<Rightarrow> float64 list" where
  "vmuls a c = map (\<lambda>x. fmul x c) a"

definition vdivs :: "float64 list \<Rightarrow> float64 \<Rightarrow> float64 list" where
  "vdivs a c = map (\<lambda>x. fdiv x c) a"

definition vsubs :: "float64 list \<Rightarrow> float64 \<Rightarrow> float64 list" where
  "vsubs a c = map (\<lambda>x. fsub x c) a"

text \<open>Sequencing of steps that may raise: the first error ends the computation.\<close>

definition ebind :: "error + 'a \<Rightarrow> ('a \<Rightarrow> error + 'b) \<Rightarrow> error + 'b" where
  "ebind m f = (case m of Inl e \<Rightarrow> Inl e | Inr x \<Rightarrow> f x)"

text \<open>
  \<open>out[:] = values\<close>, where \<open>out\<close> has one slot per asset: the values are stored when there
  is one per slot, a single value is broadcast, anything else raises \<open>ValueError\<close>.
\<close>

definition assign_out :: "int list \<Rightarrow> float64 list \<Rightarrow> error + float64 list" where
  "assign_out assets values =
     (if length values = length assets then Inr values
      else if length values = 1 then Inr (replicate (length assets) (hd values))
      else Inl ValueError)"






section \<open>Further numeric operations\<close>

text \<open>\<open>np.log\<close>: minus infinity at 0, NaN below 0.\<close>

fun flog :: "float64 \<Rightarrow> float64" where
  "flog (Fin a) = (if 0 < a then Fin (ln a) else if a = 0 then NegInf else NaN)"
| "flog PosInf = PosInf"
| "flog NegInf = NaN"
| "flog NaN = NaN"

text \<open>\<open>x ** n\<close> for the exponents 2 and 3 the catalog uses.\<close>

fun fpow :: "float64 \<Rightarrow> nat \<Rightarrow> float64" where
  "fpow x 0 = Fin 1"
| "fpow x (Suc n) = fmul x (fpow x n)"

definition vlog :: "float64 list \<Rightarrow> float64 list" where
  "vlog a = map flog a"

definition vpow :: "float64 list \<Rightarrow> nat \<Rightarrow> float64 list" where
  "vpow a n = map (\<lambda>x. fpow x n) a"




section \<open>Factors of Z99-AlphasLibIndex\<close>

text \<open>
  Each \<open>compute(self, today, assets, out, *inputs)\<close> is modelled as a function of \<open>assets\<close>
  and its input windows that returns what is stored in \<open>out\<close>, or the exception raised.
\<close>

text \<open>\<open>Price_Momentum_12M.compute\<close>: \<^verbatim>\<open>out[:] = (close[-1] - close[0]) / close[0]\<close>\<close>

definition Price_Momentum_12M :: "int list \<Rightarrow> window \<Rightarrow> error + float64 list" where
  "Price_Momentum_12M assets close =
     ebind (getitem close (-1)) (\<lambda>c_last.
     ebind (getitem close 0) (\<lambda>c_first.
       assign_out assets (vdiv (vsub c_last c_first) c_first)))"

text \<open>
  \<open>Mean_Reversion_1M.compute\<close>:
  \<^verbatim>\<open>ret_1M = (close[-1] - close[-21]) / close[-21]
ret_1Y_monthly = ((close[-1] - close[0]) / close[0]) / 12.
out[:] = (ret_1M - np.nanmean(ret_1Y_monthly)) / np.nanstd(ret_1Y_monthly)\<close>
  \<open>ret_1Y_monthly\<close> is a row with one entry per asset, and \<open>np.nanmean\<close> and \<open>np.nanstd\<close>
  are called on it without an axis: each reduces that row to one scalar.
\<close>

definition Mean_Reversion_1M :: "int list \<Rightarrow> window \<Rightarrow> error + float64 list" where
  "Mean_Reversion_1M assets close =
     ebind (getitem close (-1)) (\<lambda>c_last.
     ebind (getitem close (-21)) (\<lambda>c_21.
     ebind (getitem close 0) (\<lambda>c_first.
       (let ret_1M = vdiv (vsub c_last c_21) c_21;
            ret_1Y_monthly = vdivs (vdiv (vsub c_last c_first) c_first) (Fin 12)
        in assign_out assets
             (vdivs (vsubs ret_1M (np_nanmean ret_1Y_monthly)) (np_nanstd ret_1Y_monthly))))))"






text \<open>
  \<open>MACD_Signal_10d.compute\<close>, the same in both catalogs:
  \<^verbatim>\<open>sig_lines = []
for col in close.T:
    try:
        _, signal_line, _ = talib.MACD(col, fastperiod=12,
                                       slowperiod=26, signalperiod=10)
        sig_lines.append(signal_line[-1])
    except:
        sig_lines.append(np.nan)
out[:] = sig_lines\<close>
  \<open>talib.MACD\<close> belongs to an external library: it is a parameter of the model, a function
  of the column and the three periods that returns three series or raises.
\<close>

type_synonym talib_macd =
  "float64 list \<Rightarrow> nat \<Rightarrow> nat \<Rightarrow> nat \<Rightarrow> error + (float64 list \<times> float64 list \<times> float64 list)"

definition macd_signal_line :: "talib_macd \<Rightarrow> float64 list \<Rightarrow> float64" where
  "macd_signal_line MACD col =
     (case MACD col 12 26 10 of
        Inl e \<Rightarrow> NaN
      | Inr (macd, signal_line, hist) \<Rightarrow>
          (case getitem signal_line (-1) of Inl e \<Rightarrow> NaN | Inr v \<Rightarrow> v))"

definition MACD_Signal_10d :: "talib_macd \<Rightarrow> int list \<Rightarrow> window \<Rightarrow> error + float64 list" where
  "MACD_Signal_10d MACD assets close =
     (let sig_lines = map (macd_signal_line MACD) (T close)
      in assign_out assets sig_lines)"

text \<open>
  \<open>Moneyflow_Volume_5d.compute\<close>, the same in both catalogs:
  \<^verbatim>\<open>mfvs = []
for col_c, col_v in zip(close.T, volume.T):
    denominator = np.dot(col_c, col_v)
    numerator = 0.
    for n, price in enumerate(col_c.tolist()):
        if price > col_c[n - 1]:
            numerator += price * col_v[n]
        else:
            numerator -= price * col_v[n]
    mfvs.append(numerator / denominator)
out[:] = mfvs\<close>
  For \<open>n = 0\<close> the index \<open>n - 1\<close> is \<open>-1\<close>, which Python reads from the end of the column.
\<close>

definition np_dot :: "float64 list \<Rightarrow> float64 list \<Rightarrow> error + float64" where
  "np_dot a b = (if length a = length b then Inr (np_sum (vmul a b)) else Inl ValueError)"

fun money_flow_loop ::
  "float64 list \<Rightarrow> float64 list \<Rightarrow> nat list \<Rightarrow> float64 \<Rightarrow> error + float64" where
  "money_flow_loop col_c col_v [] numerator = Inr numerator"
| "money_flow_loop col_c col_v (n # ns) numerator =
     ebind (getitem col_c (int n)) (\<lambda>price.
     ebind (getitem col_c (int n - 1)) (\<lambda>previous.
     ebind (getitem col_v (int n)) (\<lambda>vol.
       money_flow_loop col_c col_v ns
         (if fgt price previous then fadd numerator (fmul price vol)
          else fsub numerator (fmul price vol)))))"

definition money_flow :: "float64 list \<times> float64 list \<Rightarrow> error + float64" where
  "money_flow cv =
     (case cv of (col_c, col_v) \<Rightarrow>
        ebind (np_dot col_c col_v) (\<lambda>denominator.
        ebind (money_flow_loop col_c col_v [0..<length col_c] (Fin 0)) (\<lambda>numerator.
          Inr (fdiv numerator denominator))))"

text \<open>A loop that appends one result per item and stops at the first exception.\<close>

fun collect :: "(error + 'a) list \<Rightarrow> error + 'a list" where
  "collect [] = Inr []"
| "collect (r # rs) = ebind r (\<lambda>x. ebind (collect rs) (\<lambda>xs. Inr (x # xs)))"

definition Moneyflow_Volume_5d :: "int list \<Rightarrow> window \<Rightarrow> window \<Rightarrow> error + float64 list" where
  "Moneyflow_Volume_5d assets close volume =
     ebind (collect (map money_flow (zip (T close) (T volume)))) (assign_out assets)"

text \<open>
  The money-flow ratio as the catalog documents it (``if price today greater than price
  yesterday, add price * volume, otherwise subtract''; prices and volumes multiplied and
  summed in the denominator), for comparison with the code. \<open>yesterday\<close> is the close of
  the trading day before the first day of the window.
\<close>

fun signed_flow :: "float64 \<Rightarrow> float64 list \<Rightarrow> float64 list \<Rightarrow> float64 \<Rightarrow> float64" where
  "signed_flow yesterday (c # cs) (v # vs) acc =
     signed_flow c cs vs
       (if fgt c yesterday then fadd acc (fmul c v) else fsub acc (fmul c v))"
| "signed_flow yesterday _ _ acc = acc"

definition money_flow_ratio_documented ::
  "float64 \<Rightarrow> float64 list \<Rightarrow> float64 list \<Rightarrow> float64" where
  "money_flow_ratio_documented yesterday col_c col_v =
     fdiv (signed_flow yesterday col_c col_v (Fin 0)) (np_sum (vmul col_c col_v))"































































section \<open>Factors of AlphasLibIndex\<close>

text \<open>
  The second catalog defines several factors of the same name with other code; its versions
  carry the prefix \<open>ALI\<close> here. \<open>np.nanmean(w, axis=0)\<close> and \<open>np.nanstd(w, axis=0)\<close> reduce
  every column of a window on its own.
\<close>

definition nanmean_axis0 :: "window \<Rightarrow> float64 list" where
  "nanmean_axis0 w = map np_nanmean (T w)"

definition nanstd_axis0 :: "window \<Rightarrow> float64 list" where
  "nanstd_axis0 w = map np_nanstd (T w)"

text \<open>
  \<open>Price_Oscillator.compute\<close>:
  \<^verbatim>\<open>four_week_period = close[-20:]
out[:] = (np.nanmean(four_week_period, axis=0) / np.nanmean(close, axis=0)) - 1.\<close>
\<close>

definition ALI_Price_Oscillator :: "int list \<Rightarrow> window \<Rightarrow> error + float64 list" where
  "ALI_Price_Oscillator assets close =
     (let four_week_period = last_n 20 close
      in assign_out assets
           (vsubs (vdiv (nanmean_axis0 four_week_period) (nanmean_axis0 close)) (Fin 1)))"

text \<open>
  \<open>Downside_Risk.compute\<close>:
  \<^verbatim>\<open>down_rets = np.where(rets < 0, rets, np.nan)
out[:] = np.nanstd(down_rets, axis=0)\<close>
\<close>

definition ALI_Downside_Risk :: "int list \<Rightarrow> window \<Rightarrow> error + float64 list" where
  "ALI_Downside_Risk assets rets =
     (let down_rets = map (map (\<lambda>x. if flt x (Fin 0) then x else NaN)) rets
      in assign_out assets (nanstd_axis0 down_rets))"

text \<open>
  \<open>Mean_Reversion_1M.compute\<close>, on a window of trailing 21-day returns:
  \<^verbatim>\<open>out[:] = (monthly_rets[-1] - np.nanmean(monthly_rets, axis=0)) / \
    np.nanstd(monthly_rets, axis=0)\<close>
\<close>

definition ALI_Mean_Reversion_1M :: "int list \<Rightarrow> window \<Rightarrow> error + float64 list" where
  "ALI_Mean_Reversion_1M assets monthly_rets =
     ebind (getitem monthly_rets (-1)) (\<lambda>latest.
       assign_out assets
         (vdiv (vsub latest (nanmean_axis0 monthly_rets)) (nanstd_axis0 monthly_rets)))"

section \<open>The catalog\<close>

text \<open>The call \<open>compute(today, assets, out, *inputs)\<close> for a factor with one to four inputs.\<close>

definition unary ::
  "(int list \<Rightarrow> window \<Rightarrow> error + float64 list) \<Rightarrow> int list \<Rightarrow> window list \<Rightarrow> error + float64 list" where
  "unary compute assets inputs =
     (case inputs of [a] \<Rightarrow> compute assets a | _ \<Rightarrow> Inl TypeError)"







section \<open>Factors of the Pioneer strategy\<close>


text \<open>\<open>Momentum.compute\<close>: \<^verbatim>\<open>out[:] = close[-20] / close[0]\<close>\<close>

definition Momentum :: "int list \<Rightarrow> window \<Rightarrow> error + float64 list" where
  "Momentum assets close =
     ebind (getitem close (-20)) (\<lambda>c_20.
     ebind (getitem close 0) (\<lambda>c_first.
       assign_out assets (vdiv c_20 c_first)))"

text \<open>
  \<open>DataFrame.rank()\<close> on one column, with the defaults: ascending, ties share the average
  of the places they occupy, NaN stays NaN and takes no place.
\<close>

definition pd_rank :: "float64 list \<Rightarrow> float64 list" where
  "pd_rank col =
     map (\<lambda>x. if isnan x then NaN
               else Fin (real (length (filter (\<lambda>y. flt y x) col))
                         + (real (length (filter (\<lambda>y. y = x) col)) + 1) / 2)) col"








section \<open>Rebalancing of the MVF strategy\<close>

text \<open>
  \<open>initialize\<close> sets \<open>context.long_leverage = 0.50\<close> and \<open>context.short_leverage = -0.50\<close>;
  \<open>before_trading_start\<close> fills \<open>long_list\<close> and \<open>short_list\<close>. The leverages and weights
  are Python floats, whose division by zero raises.
\<close>

record algo_context =
  long_leverage :: real
  short_leverage :: real
  long_list :: "int list"
  short_list :: "int list"
  positions :: "int list"

datatype order = Order_target_percent int real | Order_target int real

definition initialize :: "algo_context \<Rightarrow> algo_context" where
  "initialize ctx = ctx\<lparr>long_leverage := 0.50, short_leverage := - 0.50\<rparr>"

text \<open>
  \<open>before_trading_start\<close> selects the baskets:
  \<^verbatim>\<open>context.short_list = ranked_2000.sort(['combo_rank'], ascending=False).iloc[:50]
context.long_list = ranked_2000.sort(['combo_rank'], ascending=False).iloc[-50:]\<close>
  The argument \<open>ranked\<close> is the index of the sorted frame: the instruments that passed
  the filters, by descending \<open>combo_rank\<close>.
\<close>

definition before_trading_start :: "int list \<Rightarrow> algo_context \<Rightarrow> algo_context" where
  "before_trading_start ranked ctx =
     ctx\<lparr>short_list := take 50 ranked, long_list := last_n 50 ranked\<rparr>"

definition py_div :: "real \<Rightarrow> real \<Rightarrow> error + real" where
  "py_div a b = (if b = 0 then Inl ZeroDivisionError else Inr (a / b))"

text \<open>
  \<open>rebalance\<close>:
  \<^verbatim>\<open>long_weight = context.long_leverage / float(len(context.long_list))
short_weight = context.short_leverage / float(len(context.short_list))
for long_stock in context.long_list.index:
    if long_stock in data:
        order_target_percent(long_stock, long_weight)
for short_stock in context.short_list.index:
    if short_stock in data:
        order_target_percent(short_stock, -short_weight)
for stock in context.portfolio.positions.iterkeys():
    if stock not in context.long_list.index and stock not in context.short_list.index:
        order_target(stock, 0)\<close>
  The result is the sequence of orders placed, in order; \<open>data\<close> is the set of instruments
  for which \<open>stock in data\<close> holds.
\<close>

definition long_orders :: "algo_context \<Rightarrow> int set \<Rightarrow> real \<Rightarrow> order list" where
  "long_orders ctx data long_weight =
     map (\<lambda>long_stock. Order_target_percent long_stock long_weight)
       (filter (\<lambda>long_stock. long_stock \<in> data) (long_list ctx))"

definition short_orders :: "algo_context \<Rightarrow> int set \<Rightarrow> real \<Rightarrow> order list" where
  "short_orders ctx data short_weight =
     map (\<lambda>short_stock. Order_target_percent short_stock (- short_weight))
       (filter (\<lambda>short_stock. short_stock \<in> data) (short_list ctx))"

definition exit_orders :: "algo_context \<Rightarrow> order list" where
  "exit_orders ctx =
     map (\<lambda>stock. Order_target stock 0)
       (filter (\<lambda>stock. stock \<notin> set (long_list ctx) \<and> stock \<notin> set (short_list ctx))
          (positions ctx))"

definition rebalance :: "algo_context \<Rightarrow> int set \<Rightarrow> error + order list" where
  "rebalance ctx data =
     ebind (py_div (long_leverage ctx) (real (length (long_list ctx)))) (\<lambda>long_weight.
     ebind (py_div (short_leverage ctx) (real (length (short_list ctx)))) (\<lambda>short_weight.
       Inr (long_orders ctx data long_weight @ short_orders ctx data short_weight
            @ exit_orders ctx)))"

section \<open>Evaluation of a factor on a date\<close>

text \<open>
  Modelled from the spec: the panel data access layer, which is not part of the sources
  (the factors receive their windows from the hosting platform). A field of the panel is the
  list of its rows in calendar order, a date is a position in that list, and
  \<open>get_window\<close> returns the \<open>len\<close> rows that end with the row of \<open>as_of_date\<close>, oldest
  first; it fails with \<open>DataUnavailable\<close> when the date is not in the panel or fewer than
  \<open>len\<close> rows of history exist.
\<close>

definition get_window :: "window \<Rightarrow> nat \<Rightarrow> nat \<Rightarrow> error + window" where
  "get_window field len as_of_date =
     (if as_of_date < length field \<and> len \<le> as_of_date + 1
      then Inr (take len (drop (as_of_date + 1 - len) field))
      else Inl DataUnavailable)"

text \<open>
  Modelled from the spec: a factor is evaluated on a date by taking the window of its
  \<open>window_length\<close> from every input field of the panel and handing the windows to its \<open>compute\<close>.
\<close>

definition factor_value ::
  "(int list \<Rightarrow> window list \<Rightarrow> error + float64 list) \<Rightarrow> nat \<Rightarrow> int list \<Rightarrow> window list \<Rightarrow> nat
     \<Rightarrow> error + float64 list" where
  "factor_value compute window_length assets panel as_of_date =
     ebind (collect (map (\<lambda>field. get_window field window_length as_of_date) panel))
       (compute assets)"

section \<open>Reordering the instruments\<close>

text \<open>
  A reordering of \<open>n\<close> instruments is a list \<open>p\<close> holding each position \<open>0 .. n - 1\<close> once: the
  instrument at position \<open>j\<close> of the reordered input is the one that stood at position
  \<open>p ! j\<close>. It is applied to the assets, to every row of every input window, and to the output.
\<close>

definition is_permutation :: "nat \<Rightarrow> nat list \<Rightarrow> bool" where
  "is_permutation n p = (mset p = mset [0..<n])"

definition permute :: "nat list \<Rightarrow> 'a list \<Rightarrow> 'a list" where
  "permute p xs = map (\<lambda>i. xs ! i) p"


section \<open>Basic facts\<close>

lemma np_sum_single: "np_sum [x] = fadd (Fin 0) x"
  by (simp add: np_sum_def)

lemma fadd_zero_left: "fadd (Fin 0) x = x"
  by (cases x) simp_all

lemma rectangular_ncols: "rectangular n w \<Longrightarrow> ncols w = n"
  by (cases w) (simp_all add: rectangular_def ncols_def)

lemma nanmean_single:
  assumes "filter (\<lambda>x. \<not> isnan x) col = [x]"
  shows "np_nanmean col = x"
proof -
  have "x \<in> set (filter (\<lambda>x. \<not> isnan x) col)" using assms by simp
  then have "\<not> isnan x" by simp
  then show ?thesis using assms
    by (cases x) (simp_all add: np_nanmean_def np_sum_single signed_inf_def)
qed

lemma nanstd_single:
  assumes "filter (\<lambda>x. \<not> isnan x) col = [x]"
  shows "np_nanstd col = (if isfinite x then Fin 0 else NaN)"
proof -
  have "x \<in> set (filter (\<lambda>x. \<not> isnan x) col)" using assms by simp
  then have "\<not> isnan x" by simp
  then show ?thesis using assms
    by (cases x) (simp_all add: np_nanstd_def np_nanvar_def np_sum_single signed_inf_def fsub_def)
qed

lemma getitem_last: "w \<noteq> [] \<Longrightarrow> getitem w (-1) = Inr (last w)"
  by (cases w rule: rev_cases) (simp_all add: getitem_def nat_add_distrib)


lemma rectangular_last: "rectangular n w \<Longrightarrow> length (last w) = n"
  by (auto simp: rectangular_def list_all_iff)

lemma rectangular_nonempty: "rectangular n w \<Longrightarrow> w \<noteq> []"
  by (simp add: rectangular_def)


lemma ebind_Inr: "ebind (Inr x) f = f x"
  by (simp add: ebind_def)

lemma ebind_Inl: "ebind (Inl e) f = Inl e"
  by (simp add: ebind_def)

lemma assign_out_same: "length values = length assets \<Longrightarrow> assign_out assets values = Inr values"
  by (simp add: assign_out_def)



lemma py_div_nonzero: "b \<noteq> 0 \<Longrightarrow> py_div a b = Inr (a / b)"
  by (simp add: py_div_def)

lemma rebalance_nonempty:
  assumes "long_list ctx \<noteq> []" and "short_list ctx \<noteq> []"
  shows "rebalance ctx data =
         Inr (long_orders ctx data (long_leverage ctx / real (length (long_list ctx)))
              @ short_orders ctx data (short_leverage ctx / real (length (short_list ctx)))
              @ exit_orders ctx)"
  using assms by (simp add: rebalance_def py_div_nonzero ebind_Inr)

lemma length_T: "length (T w) = ncols w"
  by (simp add: T_def)

lemma T_nth: "j < ncols w \<Longrightarrow> T w ! j = column w j"
  by (simp add: T_def)



lemma getitem_nat: "n < length xs \<Longrightarrow> getitem xs (int n) = Inr (xs ! n)"
  by (simp add: getitem_def)


lemma getitem_minus_one: "xs \<noteq> [] \<Longrightarrow> getitem xs (int 0 - 1) = Inr (last xs)"
  using getitem_last [of xs] by simp

lemma getitem_pred: "0 < k \<Longrightarrow> k < length xs \<Longrightarrow> getitem xs (int k - 1) = Inr (xs ! (k - 1))"
  by (cases k) (simp_all add: getitem_def)

section \<open>Rolling mean and standard deviation of a column with one valid entry\<close>

text \<open>
  C2, as amended. For every window column that contains exactly one non-NaN entry, the
  NaN-aware per-column mean (as used in \<open>Price_Oscillator\<close>) returns that entry, and the
  NaN-aware per-column standard deviation (as used in \<open>Downside_Risk\<close>) is the population
  standard deviation of that single sample: 0 when the entry is finite, and NaN only when
  the entry is an infinity.
\<close>

theorem rolling_single_entry:
  assumes "rectangular n w" and "j < n"
    and "filter (\<lambda>x. \<not> isnan x) (column w j) = [x]"
  shows "nanmean_axis0 w ! j = x \<and>
         nanstd_axis0 w ! j = (if isfinite x then Fin 0 else NaN)"
  using assms
  by (simp add: nanmean_axis0_def nanstd_axis0_def T_def rectangular_ncols
      nanmean_single nanstd_single)

theorem rolling_single_entry_witness:
  "rectangular 2 [[NaN, Fin 1], [Fin 5, NaN], [NaN, NaN]] \<and> (0::nat) < 2 \<and>
   filter (\<lambda>x. \<not> isnan x) (column [[NaN, Fin 1], [Fin 5, NaN], [NaN, NaN]] 0) = [Fin 5] \<and>
   nanmean_axis0 [[NaN, Fin 1], [Fin 5, NaN], [NaN, NaN]] ! 0 = Fin 5 \<and>
   nanstd_axis0 [[NaN, Fin 1], [Fin 5, NaN], [NaN, NaN]] ! 0 = Fin 0"
proof -
  have r: "rectangular 2 [[NaN, Fin 1], [Fin 5, NaN], [NaN, NaN]]"
    by (simp add: rectangular_def)
  have f: "filter (\<lambda>x. \<not> isnan x) (column [[NaN, Fin 1], [Fin 5, NaN], [NaN, NaN]] 0) = [Fin 5]"
    by (simp add: column_def)
  show ?thesis using r f rolling_single_entry [OF r _ f] by simp
qed

text \<open>
  The claim as first stated asks for NaN from the standard deviation. On the column
  \<open>[NaN, 5, NaN]\<close> the code returns 0, and \<open>Downside_Risk\<close> returns 0 for an instrument with a
  single negative return in its window.
\<close>

theorem std_single_sample_counterexample:
  "np_nanstd [NaN, Fin 5, NaN] = Fin 0 \<and> np_nanstd [NaN, Fin 5, NaN] \<noteq> NaN \<and>
   ALI_Downside_Risk [24] [[Fin 1], [Fin (-5)], [Fin 2]] = Inr [Fin 0]"
  by (simp add: np_nanstd_def np_nanvar_def np_sum_def fsub_def ALI_Downside_Risk_def
      nanstd_axis0_def T_def ncols_def column_def assign_out_def)

section \<open>Weights ordered at rebalance\<close>

lemma baskets_nonempty:
  assumes "ctx = before_trading_start ranked c" and "s \<in> set (long_list ctx)"
  shows "long_list ctx \<noteq> []" and "short_list ctx \<noteq> []"
proof -
  show l: "long_list ctx \<noteq> []" using assms(2) by auto
  then have "ranked \<noteq> []" using assms(1) by (auto simp: before_trading_start_def last_n_def)
  then show "short_list ctx \<noteq> []" using assms(1) by (simp add: before_trading_start_def)
qed

text \<open>
  C8, as amended. With the baskets selected by \<open>before_trading_start\<close>, \<open>rebalance\<close> orders
  every instrument of the long list that is in \<open>data\<close> with target weight \<open>long_leverage\<close>
  divided by the size of the long list; with \<open>long_leverage = 0.5\<close> and 50 instruments in the
  long list that weight is 0.01.
\<close>

theorem long_basket_weight:
  assumes "ctx = before_trading_start ranked c"
    and "s \<in> set (long_list ctx)" and "s \<in> data"
  shows "\<exists>orders. rebalance ctx data = Inr orders \<and>
           Order_target_percent s (long_leverage ctx / real (length (long_list ctx))) \<in> set orders \<and>
           (long_leverage ctx = 0.5 \<and> length (long_list ctx) = 50 \<longrightarrow>
              Order_target_percent s 0.01 \<in> set orders)"
proof -
  let ?w = "long_leverage ctx / real (length (long_list ctx))"
  let ?orders = "long_orders ctx data ?w
     @ short_orders ctx data (short_leverage ctx / real (length (short_list ctx)))
     @ exit_orders ctx"
  have r: "rebalance ctx data = Inr ?orders"
    by (rule rebalance_nonempty [OF baskets_nonempty [OF assms(1,2)]])
  have m: "Order_target_percent s ?w \<in> set ?orders"
    using assms(2,3) by (simp add: long_orders_def)
  have e: "long_leverage ctx = 0.5 \<and> length (long_list ctx) = 50 \<longrightarrow>
           Order_target_percent s 0.01 \<in> set ?orders"
  proof
    assume a: "long_leverage ctx = 0.5 \<and> length (long_list ctx) = 50"
    then have w: "?w = 0.01" by simp
    show "Order_target_percent s 0.01 \<in> set ?orders" using m by (simp only: w)
  qed
  from r m e show ?thesis by blast
qed

theorem long_basket_weight_witness:
  "(199::int) \<in> set (long_list (before_trading_start [101..200]
      \<lparr>long_leverage = 0.5, short_leverage = - 0.5, long_list = [], short_list = [],
       positions = []\<rparr>)) \<and>
   (199::int) \<in> {s. s \<noteq> 200} \<and>
   (\<exists>orders. rebalance (before_trading_start [101..200]
      \<lparr>long_leverage = 0.5, short_leverage = - 0.5, long_list = [], short_list = [],
       positions = []\<rparr>) {s. s \<noteq> 200} = Inr orders \<and>
     Order_target_percent 199 0.01 \<in> set orders)"
  using long_basket_weight [OF refl, of 199 "[101..200]"
      "\<lparr>long_leverage = 0.5, short_leverage = - 0.5, long_list = [], short_list = [],
       positions = []\<rparr>" "{s. s \<noteq> 200}"]
  by (simp add: before_trading_start_def last_n_def)

text \<open>
  An instrument of the long list that is not in \<open>data\<close> is skipped: with 50 instruments
  in each list and instrument 200 of the long list missing from \<open>data\<close>, no order is placed
  for it.
\<close>

theorem long_not_in_data_counterexample:
  "long_list (before_trading_start [101..200]
      \<lparr>long_leverage = 0.5, short_leverage = - 0.5, long_list = [], short_list = [],
       positions = []\<rparr>) = [151..200] \<and>
   rebalance (before_trading_start [101..200]
      \<lparr>long_leverage = 0.5, short_leverage = - 0.5, long_list = [], short_list = [],
       positions = []\<rparr>) {s. s \<noteq> 200}
   = Inr (map (\<lambda>s. Order_target_percent s 0.01) [151..199]
          @ map (\<lambda>s. Order_target_percent s 0.01) [101..150])"
  by (simp add: before_trading_start_def last_n_def rebalance_def py_div_def ebind_def
      long_orders_def short_orders_def exit_orders_def)

text \<open>
  C9, as amended. With the leverages set by \<open>initialize\<close> and 50 instruments selected for
  each list, \<open>rebalance\<close> places the orders of the short list with the weight
  \<open>-short_weight\<close>, where \<open>short_weight = -0.5 / 50 = -0.01\<close>: every instrument of the short
  list that is in \<open>data\<close> is ordered with target weight +0.01, the same weight and sign as
  the long list.
\<close>

theorem short_basket_ordered_long:
  assumes "ctx = before_trading_start ranked (initialize c)" and "50 \<le> length ranked"
  shows "rebalance ctx data =
         Inr (map (\<lambda>s. Order_target_percent s 0.01) (filter (\<lambda>s. s \<in> data) (long_list ctx))
              @ map (\<lambda>s. Order_target_percent s 0.01) (filter (\<lambda>s. s \<in> data) (short_list ctx))
              @ exit_orders ctx)"
proof -
  have l: "length (long_list ctx) = 50" "length (short_list ctx) = 50"
    using assms by (simp_all add: before_trading_start_def last_n_def)
  have ne: "long_list ctx \<noteq> []" "short_list ctx \<noteq> []" using l by auto
  have lv: "long_leverage ctx = 0.5" "short_leverage ctx = - 0.5"
    using assms(1) by (simp_all add: before_trading_start_def initialize_def)
  show ?thesis
    using rebalance_nonempty [OF ne, of data] l lv
    by (simp add: long_orders_def short_orders_def)
qed

theorem short_basket_ordered_long_witness:
  "before_trading_start [101..200] (initialize
      \<lparr>long_leverage = 0, short_leverage = 0, long_list = [], short_list = [],
       positions = [7]\<rparr>)
   = \<lparr>long_leverage = 0.5, short_leverage = - 0.5, long_list = [151..200],
       short_list = [101..150], positions = [7]\<rparr> \<and>
   (50::nat) \<le> length [101..200 :: int] \<and>
   rebalance (before_trading_start [101..200] (initialize
      \<lparr>long_leverage = 0, short_leverage = 0, long_list = [], short_list = [],
       positions = [7]\<rparr>)) UNIV
   = Inr (map (\<lambda>s. Order_target_percent s 0.01) [151..200]
          @ map (\<lambda>s. Order_target_percent s 0.01) [101..150]
          @ [Order_target 7 0])"
  using short_basket_ordered_long [OF refl, of "[101..200]"
      "\<lparr>long_leverage = 0, short_leverage = 0, long_list = [], short_list = [],
       positions = [7]\<rparr>" UNIV]
  by (simp add: before_trading_start_def initialize_def last_n_def exit_orders_def)

text \<open>
  An instrument of the short list that is not in \<open>data\<close> receives no order at all: here
  instrument 101 of the short list is missing from \<open>data\<close>.
\<close>

theorem short_not_in_data_counterexample:
  "short_list (before_trading_start [101..200] (initialize
      \<lparr>long_leverage = 0, short_leverage = 0, long_list = [], short_list = [],
       positions = []\<rparr>)) = [101..150] \<and>
   rebalance (before_trading_start [101..200] (initialize
      \<lparr>long_leverage = 0, short_leverage = 0, long_list = [], short_list = [],
       positions = []\<rparr>)) {s. s \<noteq> 101}
   = Inr (map (\<lambda>s. Order_target_percent s 0.01) [151..200]
          @ map (\<lambda>s. Order_target_percent s 0.01) [102..150])"
  by (simp add: before_trading_start_def initialize_def last_n_def rebalance_def py_div_def
      ebind_def long_orders_def short_orders_def exit_orders_def)

section \<open>Annualisation that cancels\<close>



section \<open>Index beta\<close>






section \<open>A failing MACD recurrence\<close>

text \<open>
  C7. Whatever \<open>talib.MACD\<close> does on the columns, \<open>MACD_Signal_10d\<close> returns one value per
  asset and does not raise: the value of an instrument is computed from its own column, it
  is NaN when the recurrence raises on that column, and it is the last entry of the signal
  line when the recurrence returns one.
\<close>

theorem macd_failure_is_nan:
  assumes "rectangular (length assets) close"
  shows "\<exists>out. MACD_Signal_10d MACD assets close = Inr out \<and> length out = length assets \<and>
           (\<forall>j < length assets.
              out ! j = macd_signal_line MACD (column close j) \<and>
              ((\<exists>e. MACD (column close j) 12 26 10 = Inl e) \<longrightarrow> out ! j = NaN) \<and>
              (\<forall>macd signal_line hist.
                 MACD (column close j) 12 26 10 = Inr (macd, signal_line, hist) \<and>
                 signal_line \<noteq> [] \<longrightarrow> out ! j = last signal_line))"
proof -
  let ?out = "map (macd_signal_line MACD) (T close)"
  have n: "ncols close = length assets" using assms by (rule rectangular_ncols)
  have r: "MACD_Signal_10d MACD assets close = Inr ?out"
    by (simp add: MACD_Signal_10d_def assign_out_same length_T n)
  have l: "length ?out = length assets" by (simp add: length_T n)
  have v: "\<forall>j < length assets. ?out ! j = macd_signal_line MACD (column close j) \<and>
              ((\<exists>e. MACD (column close j) 12 26 10 = Inl e) \<longrightarrow> ?out ! j = NaN) \<and>
              (\<forall>macd signal_line hist.
                 MACD (column close j) 12 26 10 = Inr (macd, signal_line, hist) \<and>
                 signal_line \<noteq> [] \<longrightarrow> ?out ! j = last signal_line)"
    by (auto simp: length_T T_nth n macd_signal_line_def getitem_last)
  from r l v show ?thesis by blast
qed

theorem macd_failure_is_nan_witness:
  "rectangular (length [24, 8554 :: int]) [[Fin 1, Fin 2], [Fin 1, Fin 3]] \<and>
   MACD_Signal_10d (\<lambda>col fast slow signal. if col = [Fin 1, Fin 1] then Inl TalibError
                      else Inr (col, col, col))
     [24, 8554] [[Fin 1, Fin 2], [Fin 1, Fin 3]] = Inr [NaN, Fin 3]"
proof -
  have a: "rectangular (length [24, 8554 :: int]) [[Fin 1, Fin 2], [Fin 1, Fin 3]]"
    by (simp add: rectangular_def)
  obtain out where o:
    "MACD_Signal_10d (\<lambda>col fast slow signal. if col = [Fin 1, Fin 1] then Inl TalibError
                      else Inr (col, col, col))
       [24, 8554] [[Fin 1, Fin 2], [Fin 1, Fin 3]] = Inr out"
    "length out = length [24, 8554 :: int]"
    "\<forall>j < length [24, 8554 :: int].
        out ! j = macd_signal_line (\<lambda>col fast slow signal. if col = [Fin 1, Fin 1] then Inl TalibError
                      else Inr (col, col, col)) (column [[Fin 1, Fin 2], [Fin 1, Fin 3]] j)"
    using macd_failure_is_nan [OF a] by blast
  have "out ! 0 = NaN" "out ! 1 = Fin 3"
    using o(3) by (simp_all add: macd_signal_line_def column_def getitem_def)
  then have "out = [NaN, Fin 3]" using o(2)
    by (cases out; cases "tl out"; cases "tl (tl out)") auto
  then show ?thesis using a o(1) by simp
qed

section \<open>Money flow over five days\<close>

text \<open>
  What the loop computes: the documented ratio, except that the close taken for ``yesterday''
  of the first day is the last close of the window itself.
\<close>

lemma money_flow_loop_signed_flow:
  assumes "length col_v = length col_c" and "k \<le> length col_c"
  shows "money_flow_loop col_c col_v [k..<length col_c] acc
         = Inr (signed_flow (if k = 0 then last col_c else col_c ! (k - 1))
                  (drop k col_c) (drop k col_v) acc)"
  using assms(2)
proof (induction "length col_c - k" arbitrary: k acc)
  case 0
  then show ?case using assms(1) by simp
next
  case (Suc d)
  then have k: "k < length col_c" by simp
  then have ne: "col_c \<noteq> []" by auto
  have kv: "k < length col_v" using k assms(1) by simp
  let ?prev = "if k = 0 then last col_c else col_c ! (k - 1)"
  have p: "getitem col_c (int k - 1) = Inr ?prev"
    using k ne getitem_minus_one [of col_c] getitem_pred [of k col_c] by (cases "k = 0") simp_all
  have u: "[k..<length col_c] = k # [Suc k..<length col_c]"
    using k by (simp add: upt_conv_Cons)
  have dc: "drop k col_c = col_c ! k # drop (Suc k) col_c"
    using k by (simp add: Cons_nth_drop_Suc)
  have dv: "drop k col_v = col_v ! k # drop (Suc k) col_v"
    using kv by (simp add: Cons_nth_drop_Suc)
  have ih: "money_flow_loop col_c col_v [Suc k..<length col_c] a
            = Inr (signed_flow (col_c ! k) (drop (Suc k) col_c) (drop (Suc k) col_v) a)" for a
    using Suc(1) [of "Suc k" a] Suc(2) k by simp
  show ?case
    unfolding u dc dv
    by (simp add: getitem_nat [OF k] getitem_nat [OF kv] p ebind_def ih)
qed

lemma money_flow_documented_with_last:
  assumes "length col_v = length col_c"
  shows "money_flow (col_c, col_v)
         = Inr (money_flow_ratio_documented (last col_c) col_c col_v)"
  using money_flow_loop_signed_flow [OF assms, of 0 "Fin 0"] assms
  by (simp add: money_flow_def np_dot_def ebind_def money_flow_ratio_documented_def)

text \<open>
  C3. The claim takes the sign of every day from the comparison with the close of the day
  before. The code compares the first day of the window with the last day of the same
  window: on the closes 10, 5, 6, 7, 8 with volume 1 it adds the first day (10 is above 8)
  and returns 26/36, while a close of 11 on the day before the window makes the documented
  ratio 6/36; and replacing only the last close by 12 flips the sign given to the first day.
\<close>

theorem moneyflow_first_day_wraps:
  "Moneyflow_Volume_5d [24] [[Fin 10], [Fin 5], [Fin 6], [Fin 7], [Fin 8]]
      [[Fin 1], [Fin 1], [Fin 1], [Fin 1], [Fin 1]] = Inr [Fin (13 / 18)] \<and>
   money_flow_ratio_documented (Fin 11) [Fin 10, Fin 5, Fin 6, Fin 7, Fin 8]
      [Fin 1, Fin 1, Fin 1, Fin 1, Fin 1] = Fin (1 / 6) \<and>
   Moneyflow_Volume_5d [24] [[Fin 10], [Fin 5], [Fin 6], [Fin 7], [Fin 12]]
      [[Fin 1], [Fin 1], [Fin 1], [Fin 1], [Fin 1]] = Inr [Fin (1 / 4)]"
  by (simp add: Moneyflow_Volume_5d_def T_def ncols_def column_def money_flow_def np_dot_def
      np_sum_def vmul_def ebind_def getitem_def fgt_def fsub_def assign_out_def
      money_flow_ratio_documented_def upt_rec)

section \<open>One-month mean reversion\<close>

lemma sqrt_example: "sqrt (1 / 40000) = 1 / 200"
  by (rule real_sqrt_unique) (simp_all add: power2_eq_square)

lemma sqrt_example2: "sqrt (1 / 10000) = 1 / 100"
  by (rule real_sqrt_unique) (simp_all add: power2_eq_square)

lemma getitem_year_window:
  "getitem (replicate 251 a @ [b]) (-1) = Inr b"
  "getitem (replicate 251 a @ [b]) (-21) = Inr a"
  "getitem (replicate 251 a @ [b]) 0 = Inr a"
  by (simp_all add: getitem_def nth_append)

text \<open>
  The version of the second catalog standardises every instrument against its own column of
  monthly returns.
\<close>

lemma ALI_Mean_Reversion_1M_per_column:
  assumes "rectangular (length assets) monthly_rets" and "j < length assets"
  shows "\<exists>out. ALI_Mean_Reversion_1M assets monthly_rets = Inr out \<and>
           out ! j = fdiv (fsub (last (column monthly_rets j))
                             (np_nanmean (column monthly_rets j)))
                       (np_nanstd (column monthly_rets j))"
proof -
  have n: "ncols monthly_rets = length assets" by (rule rectangular_ncols [OF assms(1)])
  have ne: "monthly_rets \<noteq> []" by (rule rectangular_nonempty [OF assms(1)])
  have l: "length (last monthly_rets) = length assets" by (rule rectangular_last [OF assms(1)])
  have c: "last (column monthly_rets j) = last monthly_rets ! j"
    using ne by (simp add: column_def last_map)
  show ?thesis
    using assms(2) l
    by (simp add: ALI_Mean_Reversion_1M_def getitem_last [OF ne] ebind_def assign_out_def
        nanmean_axis0_def nanstd_axis0_def length_T n T_nth vdiv_def vsub_def c)
qed

text \<open>
  C4. The claim describes a z-score of each instrument against its own monthly returns.
  The code of \<open>Z99-AlphasLibIndex\<close> takes the mean and the standard deviation across the
  instruments of the cross-section instead. On a 252-day window of two instruments whose
  first column closes at 100 on every day but the last (112), the value of the first
  instrument is 23 when the second closes flat at 100 and 10 when the second ends at 136;
  with the first instrument alone the standard deviation is 0 and the result is infinite.
\<close>

theorem mean_reversion_is_cross_sectional:
  "Mean_Reversion_1M [24, 8554] (replicate 251 [Fin 100, Fin 100] @ [[Fin 112, Fin 100]])
     = Inr [Fin 23, Fin (- 1)] \<and>
   Mean_Reversion_1M [24, 8554] (replicate 251 [Fin 100, Fin 100] @ [[Fin 112, Fin 136]])
     = Inr [Fin 10, Fin 34] \<and>
   Mean_Reversion_1M [24] (replicate 251 [Fin 100] @ [[Fin 112]]) = Inr [PosInf]"
  by (simp add: Mean_Reversion_1M_def getitem_year_window ebind_def vdiv_def vsub_def vdivs_def
      vsubs_def fsub_def np_nanmean_def np_nanstd_def np_nanvar_def np_sum_def assign_out_def
      sqrt_example sqrt_example2 signed_inf_def)

section \<open>No look-ahead\<close>

lemma get_window_append:
  assumes "as_of_date < length field"
  shows "get_window (field @ later) len as_of_date = get_window field len as_of_date"
proof (cases "len \<le> as_of_date + 1")
  case True
  let ?k = "as_of_date + 1 - len"
  have k: "?k \<le> length field" using assms by simp
  have l: "len \<le> length (drop ?k field)" using assms True by simp
  have "take len (drop ?k (field @ later)) = take len (drop ?k field)"
    using k l by simp
  then show ?thesis using assms True by (simp add: get_window_def)
next
  case False
  then show ?thesis by (simp add: get_window_def)
qed

lemma windows_append:
  assumes "length future = length panel" and "\<forall>field \<in> set panel. as_of_date < length field"
  shows "map (\<lambda>field. get_window field len as_of_date) (map2 (@) panel future)
         = map (\<lambda>field. get_window field len as_of_date) panel"
  using assms
proof (induction panel future rule: list_induct2')
  case (4 f fs x xs)
  then show ?case by (simp add: get_window_append)
qed simp_all

lemma get_window_all: "length field = Suc d \<Longrightarrow> get_window field (Suc d) d = Inr field"
  by (simp add: get_window_def)

text \<open>
  C1. The value of a factor on a date \<open>D\<close> of the panel is computed from the trailing
  windows that end at \<open>D\<close>, so appending rows for later dates to every field of the panel
  leaves the value of every instrument on \<open>D\<close> unchanged (also when it is an error for lack of
  history). This holds for every \<open>compute\<close> function and window length, hence for every
  factor of the catalogs; it is spelled out for \<open>Momentum\<close> of the Pioneer strategy and for
  \<open>Price_Momentum_12M\<close>.
\<close>

theorem no_look_ahead:
  assumes "length future = length panel" and "\<forall>field \<in> set panel. as_of_date < length field"
  shows "factor_value compute window_length assets (map2 (@) panel future) as_of_date
           = factor_value compute window_length assets panel as_of_date \<and>
         factor_value (unary Momentum) 252 assets (map2 (@) panel future) as_of_date
           = factor_value (unary Momentum) 252 assets panel as_of_date \<and>
         factor_value (unary Price_Momentum_12M) 252 assets (map2 (@) panel future) as_of_date
           = factor_value (unary Price_Momentum_12M) 252 assets panel as_of_date"
  unfolding factor_value_def windows_append [OF assms] by simp

theorem no_look_ahead_witness:
  "length [[[Fin 500]]] = length [replicate 232 [Fin 100] @ replicate 20 [Fin 110]] \<and>
   251 < length (replicate 232 [Fin (100::real)] @ replicate 20 [Fin 110]) \<and>
   factor_value (unary Momentum) 252 [24]
      (map2 (@) [replicate 232 [Fin 100] @ replicate 20 [Fin 110]] [[[Fin 500]]]) 251
     = Inr [Fin 1.1] \<and>
   factor_value (unary Price_Momentum_12M) 252 [24]
      (map2 (@) [replicate 232 [Fin 100] @ replicate 20 [Fin 110]] [[[Fin 500]]]) 251
     = Inr [Fin 0.1]"
proof -
  let ?panel = "[replicate 232 [Fin 100] @ replicate 20 [Fin 110]]"
  have a: "length [[[Fin 500]]] = length ?panel" by simp
  have b: "\<forall>field \<in> set ?panel. 251 < length field" by simp
  have w: "get_window (replicate 232 [Fin 100] @ replicate 20 [Fin 110]) 252 251
           = Inr (replicate 232 [Fin 100] @ replicate 20 [Fin 110])"
    using get_window_all [of "replicate 232 [Fin 100] @ replicate 20 [Fin 110]" 251] by simp
  have g: "getitem (replicate 232 [Fin 100] @ replicate 20 [Fin 110]) (- 20) = Inr [Fin 110]"
    "getitem (replicate 232 [Fin 100] @ replicate 20 [Fin 110]) (- 1) = Inr [Fin 110]"
    "getitem (replicate 232 [Fin 100] @ replicate 20 [Fin 110]) 0 = Inr [Fin 100]"
    by (simp_all add: getitem_def nth_append)
  have m: "factor_value (unary Momentum) 252 [24] ?panel 251 = Inr [Fin 1.1]"
    by (simp add: factor_value_def w ebind_def unary_def Momentum_def g vdiv_def assign_out_def)
  have p: "factor_value (unary Price_Momentum_12M) 252 [24] ?panel 251 = Inr [Fin 0.1]"
    by (simp add: factor_value_def w ebind_def unary_def Price_Momentum_12M_def g vdiv_def
        vsub_def fsub_def assign_out_def)
  show ?thesis using a b m p no_look_ahead [OF a b, of _ _ "[24]"] by simp
qed

section \<open>Facts about reorderings\<close>



lemma perm_distinct: "is_permutation n p \<Longrightarrow> distinct p"
  by (metis is_permutation_def distinct_upt mset_eq_imp_distinct_iff)


lemma length_permute [simp]: "length (permute p xs) = length p"
  by (simp add: permute_def)



























lemma length_vops [simp]:
  "length (vdiv x y) = min (length x) (length y)"
  "length (vsub x y) = min (length x) (length y)"
  "length (vmul x y) = min (length x) (length y)"
  "length (vmuls x c) = length x"
  "length (vdivs x c) = length x"
  "length (vsubs x c) = length x"
  "length (vlog x) = length x"
  "length (vpow x k) = length x"
  by (simp_all add: vdiv_def vsub_def vmul_def vmuls_def vdivs_def vsubs_def
      vlog_def vpow_def)


section \<open>Factors computed from single rows\<close>
















































subsection \<open>Sums do not depend on the order\<close>











subsection \<open>Ranks\<close>



subsection \<open>Factors computed column by column\<close>












subsection \<open>Loops that may raise\<close>





















subsection \<open>Money flow\<close>





subsection \<open>Distance to default\<close>



subsection \<open>The benchmark column\<close>






subsection \<open>The value factor of the Pioneer strategy\<close>



lemma length_pd_rank [simp]: "length (pd_rank col) = length col"
  by (simp add: pd_rank_def)


subsection \<open>Dollar volume\<close>




subsection \<open>Every factor of the catalog\<close>








end
